theory Spec2Isabelle
  imports Complex_Main "HOL-Library.AList"
begin

section \<open>Errors and Python primitives\<close>

text \<open>
  Every exception the notebooks' code can raise is a value of \<open>error\<close>; a function
  that may raise returns \<open>error + 'a\<close>, with \<open>Inl\<close> the exception.
\<close>

datatype error =
    ValueError string
  | ZeroDivisionError
  | NameError string
  | KeyError string
  | TypeError
  | IndexError
  | RetryableError
  | SchemaError string

text \<open>\<^verbatim>\<open>max(xs)\<close> raises ValueError on an empty sequence.\<close>

fun py_max :: "int list \<Rightarrow> error + int" where
  "py_max [] = Inl (ValueError ''max() arg is an empty sequence'')"
| "py_max (x # xs) = Inr (fold max xs x)"

text \<open>\<^verbatim>\<open>range(count)\<close>: empty when \<open>count \<le> 0\<close>.\<close>

definition py_range :: "int \<Rightarrow> int list" where
  "py_range n = map int [0..<nat n]"

text \<open>
  A list comprehension \<^verbatim>\<open>[f(i) for i in xs]\<close> whose body may raise: the elements are
  computed left to right and the first exception aborts the whole comprehension.
\<close>

fun list_comprehension :: "('a \<Rightarrow> error + 'b) \<Rightarrow> 'a list \<Rightarrow> error + 'b list" where
  "list_comprehension f [] = Inr []"
| "list_comprehension f (x # xs) =
     (case f x of
        Inl e \<Rightarrow> Inl e
      | Inr y \<Rightarrow> (case list_comprehension f xs of Inl e \<Rightarrow> Inl e | Inr ys \<Rightarrow> Inr (y # ys)))"

section \<open>Data model: parameters, search spaces, trials\<close>

text \<open>
  Modelled from the spec: the notebooks import the data model (\<^verbatim>\<open>pyvizier\<close>) and do not
  define it. The types below follow the spec's data model and keep the attributes the
  notebooks read or write.
\<close>

datatype ParameterType = DOUBLE | INTEGER | DISCRETE | CATEGORICAL

datatype ScaleType = LINEAR | LOG | REVERSE_LOG | UNIFORM_DISCRETE

text \<open>
  A parameter value is a string (CATEGORICAL), an integer (INTEGER) or a float
  (DOUBLE, DISCRETE). Floats are written as reals; every theorem below that computes with
  one does so at values where binary floating-point arithmetic is exact.
\<close>

datatype ParameterValue = StrValue string | IntValue int | FloatValue real

text \<open>
  A parameter configuration: name, type, bounds (DOUBLE, INTEGER), feasible values
  (DISCRETE, CATEGORICAL), scale type, default value, and the child configurations, each
  guarded by the parent values that activate it.
\<close>

datatype ParameterConfig =
  ParameterConfig
    (name: string)
    (type: ParameterType)
    (bounds: "(real \<times> real) option")
    (feasible_values: "ParameterValue list")
    (scale_type: "ScaleType option")
    (default_value: "ParameterValue option")
    (children: "(ParameterValue list \<times> ParameterConfig) list")

text \<open>
  The search space owns the parameter configurations at its root; a problem statement
  (and a study configuration, which extends it) carries a search space.
\<close>

datatype SearchSpace = SearchSpace (parameters: "ParameterConfig list")

record ProblemStatement =
  search_space :: SearchSpace

type_synonym StudyConfig = ProblemStatement

text \<open>A \<^verbatim>\<open>ParameterDict\<close> is a Python dict: keys keep their insertion order.\<close>

type_synonym 'v ParameterDict = "(string \<times> 'v) list"

record Measurement =
  metrics :: "(string \<times> real) list"

text \<open>
  A trial. The value type \<open>'v\<close> is fixed by the study's search space: integers for the
  permutation study, floats for the disk study.
\<close>

record 'v Trial =
  trial_id :: int
  parameters :: "'v ParameterDict"
  final_measurement :: "Measurement option"
  infeasibility_reason :: "string option"

datatype TrialStatus = ACTIVE | COMPLETED | STOPPED

section \<open>Writing algorithms: the cycling policy and designer\<close>

text \<open>
  \<^verbatim>\<open>make_parameters(study_config, index)\<close> loops over the parameter configurations of
  the search space. A CATEGORICAL parameter gets
  \<^verbatim>\<open>feasible_values[index % categorical_size]\<close>; any other type raises ValueError.
  The notebook spells the enumeration \<^verbatim>\<open>pyvizier.ParamterType\<close>; it is read here as the
  parameter-type enumeration. Python's \<^verbatim>\<open>%\<close> with a positive divisor is \<open>mod\<close> on
  \<open>int\<close> (the result is never negative); with divisor 0 it raises ZeroDivisionError.
\<close>

fun make_parameters_loop ::
  "ParameterConfig list \<Rightarrow> int \<Rightarrow> ParameterValue ParameterDict \<Rightarrow> error + ParameterValue ParameterDict"
where
  "make_parameters_loop [] index parameter_dict = Inr parameter_dict"
| "make_parameters_loop (parameter_config # rest) index parameter_dict =
     (if type parameter_config = CATEGORICAL then
        (let values = feasible_values parameter_config;
             categorical_size = int (length values)
         in if categorical_size = 0 then Inl ZeroDivisionError
            else make_parameters_loop rest index
                   (AList.update (name parameter_config)
                      (values ! nat (index mod categorical_size)) parameter_dict))
      else Inl (ValueError ''This function only supports CATEGORICAL parameters.''))"

definition make_parameters :: "StudyConfig \<Rightarrow> int \<Rightarrow> error + ParameterValue ParameterDict" where
  "make_parameters study_config index =
     make_parameters_loop (SearchSpace.parameters (search_space study_config)) index []"

text \<open>
  The \<^verbatim>\<open>PolicySupporter\<close> is the injected datastore client. Its implementation is not
  part of the notebooks, so it is a parameter: a record holding its one method used here,
  \<^verbatim>\<open>GetTrials(status_matches=...)\<close>, which returns the fetched trials or fails.
\<close>

record 'v PolicySupporter =
  GetTrials :: "TrialStatus \<Rightarrow> error + 'v Trial list"

definition get_next_index :: "'v PolicySupporter \<Rightarrow> error + int" where
  "get_next_index policy_supporter =
     (case GetTrials policy_supporter COMPLETED of
        Inl e \<Rightarrow> Inl e
      | Inr trials \<Rightarrow>
          (let completed_trial_ids = map trial_id trials
           in if completed_trial_ids \<noteq> [] then py_max completed_trial_ids else Inr 0))"

record SuggestRequest =
  count :: int
  study_config :: StudyConfig

datatype TrialSuggestion = TrialSuggestion "ParameterValue ParameterDict"

datatype MetadataDelta = MetadataDelta

record SuggestDecision =
  suggestions :: "TrialSuggestion list"
  metadata :: MetadataDelta

record 'v MyPolicy =
  self_policy_supporter :: "'v PolicySupporter"

definition MyPolicy_init :: "'v PolicySupporter \<Rightarrow> 'v MyPolicy" where
  "MyPolicy_init policy_supporter = \<lparr>self_policy_supporter = policy_supporter\<rparr>"

text \<open>The body of \<^verbatim>\<open>for _ in range(request.count)\<close>, with the iterations left to run.\<close>

fun MyPolicy_suggest_loop ::
  "nat \<Rightarrow> 'v MyPolicy \<Rightarrow> SuggestRequest \<Rightarrow> TrialSuggestion list \<Rightarrow> error + TrialSuggestion list"
where
  "MyPolicy_suggest_loop 0 self request suggest_decision_list = Inr suggest_decision_list"
| "MyPolicy_suggest_loop (Suc n) self request suggest_decision_list =
     (case get_next_index (self_policy_supporter self) of
        Inl e \<Rightarrow> Inl e
      | Inr index \<Rightarrow>
          (case make_parameters (study_config request) index of
             Inl e \<Rightarrow> Inl e
           | Inr params \<Rightarrow>
               MyPolicy_suggest_loop n self request
                 (suggest_decision_list @ [TrialSuggestion params])))"

definition MyPolicy_suggest :: "'v MyPolicy \<Rightarrow> SuggestRequest \<Rightarrow> error + SuggestDecision" where
  "MyPolicy_suggest self request =
     (case MyPolicy_suggest_loop (nat (count request)) self request [] of
        Inl e \<Rightarrow> Inl e
      | Inr suggest_decision_list \<Rightarrow>
          Inr \<lparr>suggestions = suggest_decision_list, metadata = MetadataDelta\<rparr>)"

text \<open>
  \<^verbatim>\<open>MyDesigner\<close> keeps the study configuration and the completed trials seen so far.
  \<^verbatim>\<open>update\<close> extends the list with \<^verbatim>\<open>delta.completed\<close>; \<^verbatim>\<open>suggest\<close> returns the empty
  list when \<^verbatim>\<open>count\<close> is None, and otherwise takes the maximum of the completed ids,
  which raises on an empty list.
\<close>

record 'v CompletedTrials =
  completed :: "'v Trial list"

record 'v MyDesigner =
  self_study_config :: StudyConfig
  self_completed_trials :: "'v Trial list"

definition MyDesigner_init :: "StudyConfig \<Rightarrow> 'v MyDesigner" where
  "MyDesigner_init config =
     \<lparr>self_study_config = config, self_completed_trials = []\<rparr>"

definition MyDesigner_update :: "'v MyDesigner \<Rightarrow> 'v CompletedTrials \<Rightarrow> 'v MyDesigner" where
  "MyDesigner_update self delta =
     self\<lparr>self_completed_trials := self_completed_trials self @ completed delta\<rparr>"

definition MyDesigner_suggest ::
  "'v MyDesigner \<Rightarrow> int option \<Rightarrow> error + ParameterValue ParameterDict list"
where
  "MyDesigner_suggest self count_opt =
     (case count_opt of
        None \<Rightarrow> Inr []
      | Some n \<Rightarrow>
          (let completed_trial_ids = map trial_id (self_completed_trials self)
           in case py_max completed_trial_ids of
                Inl e \<Rightarrow> Inl e
              | Inr current_index \<Rightarrow>
                  list_comprehension
                    (\<lambda>i. make_parameters (self_study_config self) (current_index + i))
                    (py_range n)))"

section \<open>Search spaces: conditional parameters\<close>

text \<open>
  Modelled from the spec: the search-space builder and the flattening of an assignment,
  which the notebook calls but does not define. A handle is the path of
  \<^verbatim>\<open>select(parameter_name, matching_values)\<close> steps from the root. Adding a parameter
  fails with SchemaError if its name collides with a parameter at that position, if its
  bounds are inverted or if its feasible values are empty; below a \<^verbatim>\<open>select\<close> it becomes
  a child guarded by the matching values.
\<close>

type_synonym SearchSpaceSelector = "(string \<times> ParameterValue list) list"

definition select_root :: "SearchSpace \<Rightarrow> SearchSpaceSelector" where
  "select_root space = []"

definition select ::
  "SearchSpaceSelector \<Rightarrow> string \<Rightarrow> ParameterValue list \<Rightarrow> SearchSpaceSelector" where
  "select handle parameter_name matching_values = handle @ [(parameter_name, matching_values)]"

definition with_children ::
  "ParameterConfig \<Rightarrow> (ParameterValue list \<times> ParameterConfig) list \<Rightarrow> ParameterConfig" where
  "with_children pc cs =
     ParameterConfig (name pc) (type pc) (bounds pc) (feasible_values pc) (scale_type pc)
       (default_value pc) cs"

fun add_param ::
  "SearchSpaceSelector \<Rightarrow> ParameterConfig \<Rightarrow> ParameterConfig list \<Rightarrow> error + ParameterConfig list"
where
  "add_param [] new siblings =
     (if name new \<in> set (map name siblings) then Inl (SchemaError (name new))
      else Inr (siblings @ [new]))"
| "add_param ((parameter_name, matching_values) # path) new siblings =
     (case find (\<lambda>c. name c = parameter_name) siblings of
        None \<Rightarrow> Inl (KeyError parameter_name)
      | Some parent \<Rightarrow>
          (let guarded = filter (\<lambda>gc. fst gc = matching_values) (children parent);
               others = filter (\<lambda>gc. fst gc \<noteq> matching_values) (children parent)
           in case add_param path new (map snd guarded) of
                Inl e \<Rightarrow> Inl e
              | Inr kids \<Rightarrow>
                  Inr (map (\<lambda>c. if name c = parameter_name
                                 then with_children c (others @ map (Pair matching_values) kids)
                                 else c) siblings)))"

definition add_float_param ::
  "SearchSpace \<Rightarrow> SearchSpaceSelector \<Rightarrow> string \<Rightarrow> real \<Rightarrow> real \<Rightarrow> ScaleType option
   \<Rightarrow> error + SearchSpace"
where
  "add_float_param space handle nm min_value max_value scale =
     (if max_value < min_value then Inl (SchemaError nm)
      else case add_param handle
                  (ParameterConfig nm DOUBLE (Some (min_value, max_value)) [] scale None [])
                  (SearchSpace.parameters space) of
             Inl e \<Rightarrow> Inl e
           | Inr ps \<Rightarrow> Inr (SearchSpace ps))"

definition add_categorical_param ::
  "SearchSpace \<Rightarrow> SearchSpaceSelector \<Rightarrow> string \<Rightarrow> string list \<Rightarrow> error + SearchSpace"
where
  "add_categorical_param space handle nm values =
     (if values = [] then Inl (SchemaError nm)
      else case add_param handle
                  (ParameterConfig nm CATEGORICAL None (map StrValue values) None None [])
                  (SearchSpace.parameters space) of
             Inl e \<Rightarrow> Inl e
           | Inr ps \<Rightarrow> Inr (SearchSpace ps))"

text \<open>Sequencing of calls that may raise: the first exception ends the script.\<close>

definition and_then :: "error + 'a \<Rightarrow> ('a \<Rightarrow> error + 'b) \<Rightarrow> error + 'b" where
  "and_then m f = (case m of Inl e \<Rightarrow> Inl e | Inr x \<Rightarrow> f x)"

text \<open>
  The notebook's cell building \<^verbatim>\<open>conditional_problem\<close>: the root parameter
  \<^verbatim>\<open>optimizer\<close>, one child below \<^verbatim>\<open>select('optimizer', ['sgd'])\<close> and three below
  \<^verbatim>\<open>select('optimizer', ['adam'])\<close>, added in the cell's order.
\<close>

definition conditional_problem :: "error + ProblemStatement" where
  "conditional_problem =
     (let space0 = SearchSpace [];
          conditional_problem_root = select_root space0;
          sgd = select conditional_problem_root ''optimizer'' [StrValue ''sgd''];
          adam = select conditional_problem_root ''optimizer'' [StrValue ''adam'']
      in and_then
           (add_categorical_param space0 conditional_problem_root ''optimizer'' [''sgd'', ''adam''])
        (\<lambda>space1. and_then
           (add_float_param space1 sgd ''sgd_learning_rate'' (1 / 10000) 1 (Some LOG))
        (\<lambda>space2. and_then
           (add_float_param space2 adam ''adam_learning_rate'' (1 / 10000) 1 (Some LOG))
        (\<lambda>space3. and_then
           (add_float_param space3 adam ''adam_beta1'' 0 1 (Some REVERSE_LOG))
        (\<lambda>space4. and_then
           (add_float_param space4 adam ''adam_beta2'' 0 1 (Some REVERSE_LOG))
        (\<lambda>space5. Inr \<lparr>search_space = space5\<rparr>))))))"

text \<open>
  Modelled from the spec: flattening an assignment against the space is a recursive walk
  from the root. A parameter contributes its assigned value, and then the children whose
  guard contains that value; a value matching no guard contributes no children.
\<close>

lemma size_child: "(g, c) \<in> set (children pc) \<Longrightarrow> size c < size pc"
proof (cases pc)
  case (ParameterConfig nm ty bs fv sc dv cs)
  assume "(g, c) \<in> set (children pc)"
  with ParameterConfig have "(g, c) \<in> set cs" by simp
  then have "size c < Suc (size_list (size_prod (\<lambda>_. 0) size) cs)"
    by (induction cs) auto
  with ParameterConfig show ?thesis by simp
qed

function flatten_config ::
  "ParameterConfig \<Rightarrow> ParameterValue ParameterDict \<Rightarrow> ParameterValue ParameterDict"
where
  "flatten_config pc assignment =
     (case map_of assignment (name pc) of
        None \<Rightarrow> []
      | Some v \<Rightarrow>
          (name pc, v) #
          concat (map (\<lambda>gc. if v \<in> set (fst gc) then flatten_config (snd gc) assignment else [])
                    (children pc)))"
  by pat_completeness auto

termination
  by (relation "measure (\<lambda>(pc, assignment). size pc)") (auto simp: size_child)

definition flatten ::
  "SearchSpace \<Rightarrow> ParameterValue ParameterDict \<Rightarrow> ParameterValue ParameterDict" where
  "flatten space assignment =
     concat (map (\<lambda>pc. flatten_config pc assignment) (SearchSpace.parameters space))"

text \<open>\<^verbatim>\<open>s.startswith(p)\<close>\<close>

definition startswith :: "string \<Rightarrow> string \<Rightarrow> bool" where
  "startswith s p = (take (length p) s = p)"

section \<open>Search spaces: the Lehmer-code reparameterization\<close>

text \<open>
  \<^verbatim>\<open>str(n)\<close> for a non-negative integer: its decimal digits. \<^verbatim>\<open>ParameterDict.get_value\<close>
  returns the raw value, or None for a missing key. \<^verbatim>\<open>xs[i]\<close> counts a negative \<open>i\<close>
  from the end and raises IndexError out of range.
\<close>

definition digit :: "nat \<Rightarrow> char" where
  "digit d = ''0123456789'' ! d"

function str :: "nat \<Rightarrow> string" where
  "str n = (if n < 10 then [digit n] else str (n div 10) @ [digit (n mod 10)])"
  by pat_completeness auto
termination
  by (relation "measure (\<lambda>n. n)") auto

declare str.simps [simp del]

definition get_value :: "'v ParameterDict \<Rightarrow> string \<Rightarrow> 'v option" where
  "get_value parameter_dict key = map_of parameter_dict key"

definition py_getitem :: "'a list \<Rightarrow> int \<Rightarrow> error + 'a" where
  "py_getitem xs i =
     (if 0 \<le> i \<and> i < int (length xs) then Inr (xs ! nat i)
      else if i < 0 \<and> - int (length xs) \<le> i then Inr (xs ! nat (int (length xs) + i))
      else Inl IndexError)"

definition N :: nat where
  "N = 10"

text \<open>
  \<^verbatim>\<open>compute_index\<close> sums \<^verbatim>\<open>get_value(str(n)) * factorial(n)\<close> over \<^verbatim>\<open>range(N)\<close>. The
  parameters of the permutation study are INTEGER, so the values are integers; a missing
  parameter yields None, and None times an integer raises TypeError.
\<close>

fun compute_index_loop :: "nat list \<Rightarrow> int Trial \<Rightarrow> int \<Rightarrow> error + int" where
  "compute_index_loop [] trial index = Inr index"
| "compute_index_loop (n # ns) trial index =
     (case get_value (Trial.parameters trial) (str n) of
        None \<Rightarrow> Inl TypeError
      | Some c \<Rightarrow> compute_index_loop ns trial (index + c * fact n))"

definition compute_index :: "int Trial \<Rightarrow> error + int" where
  "compute_index trial = compute_index_loop [0..<N] trial 0"

text \<open>
  \<^verbatim>\<open>compute_permutation\<close>: for \<open>k\<close> in \<^verbatim>\<open>range(1, N + 1)\<close>, pick the element of
  \<^verbatim>\<open>all_indices\<close> at \<^verbatim>\<open>temp_index // factorial(N - k)\<close>, append it to the output, remove
  its first occurrence from \<^verbatim>\<open>all_indices\<close>, and keep the remainder as \<^verbatim>\<open>temp_index\<close>.
  Python's \<^verbatim>\<open>//\<close> and \<^verbatim>\<open>%\<close> with a positive divisor are \<open>div\<close> and \<open>mod\<close> on \<open>int\<close>.
  \<open>k\<close> runs from 1 to \<open>N\<close>, so \<open>N - k\<close> is never negative and the factorial is defined.
\<close>

fun compute_permutation_loop ::
  "nat list \<Rightarrow> int list \<Rightarrow> int \<Rightarrow> int list \<Rightarrow> error + int list"
where
  "compute_permutation_loop [] all_indices temp_index output = Inr output"
| "compute_permutation_loop (k # ks) all_indices temp_index output =
     (let factorial_value = fact (N - k)
      in case py_getitem all_indices (temp_index div factorial_value) of
           Inl e \<Rightarrow> Inl e
         | Inr v \<Rightarrow>
             compute_permutation_loop ks (remove1 v all_indices)
               (temp_index mod factorial_value) (output @ [v]))"

definition compute_permutation :: "int \<Rightarrow> error + int list" where
  "compute_permutation index = compute_permutation_loop [1..<N + 1] (py_range (int N)) index []"

definition phi :: "int Trial \<Rightarrow> error + int list" where
  "phi trial =
     (case compute_index trial of Inl e \<Rightarrow> Inl e | Inr index \<Rightarrow> compute_permutation index)"

text \<open>
  The permutation search space: INTEGER parameters named \<^verbatim>\<open>str(n)\<close> for \<open>n\<close> in
  \<^verbatim>\<open>range(N)\<close>, parameter \<open>n\<close> with bounds \<open>[0, n]\<close>. A trial lies in it when each of these
  parameters has a value within its bounds.
\<close>

definition in_permutation_space :: "int Trial \<Rightarrow> bool" where
  "in_permutation_space trial =
     list_all
       (\<lambda>n. case get_value (Trial.parameters trial) (str n) of
               None \<Rightarrow> False
             | Some c \<Rightarrow> 0 \<le> c \<and> c \<le> int n)
       [0..<N]"

text \<open>
  For the proofs: the Lehmer decoding that the loop of \<^verbatim>\<open>compute_permutation\<close> performs,
  as a function of the digits \<open>temp_index // factorial(N - k)\<close> it reads (most significant
  first); the digit lists it can read (each digit below the number of elements left); the
  value of parameter \<open>n\<close> in a trial (0 when missing); the index as a sum over the first
  \<open>m\<close> parameters; the digits of a trial; and the trial with parameter \<open>n\<close> set to \<open>c n\<close>.
\<close>

fun lehmer_decode :: "'a list \<Rightarrow> nat list \<Rightarrow> 'a list" where
  "lehmer_decode all [] = []"
| "lehmer_decode all (d # ds) = all ! d # lehmer_decode (remove1 (all ! d) all) ds"

fun lehmer_digits :: "nat list \<Rightarrow> bool" where
  "lehmer_digits [] = True"
| "lehmer_digits (d # ds) = (d \<le> length ds \<and> lehmer_digits ds)"

definition coefficient :: "int Trial \<Rightarrow> nat \<Rightarrow> int" where
  "coefficient trial n =
     (case get_value (Trial.parameters trial) (str n) of None \<Rightarrow> 0 | Some c \<Rightarrow> c)"

definition lehmer_sum :: "(nat \<Rightarrow> int) \<Rightarrow> nat \<Rightarrow> int" where
  "lehmer_sum c m = sum_list (map (\<lambda>n. c n * fact n) [0..<m])"

definition digits_of :: "(nat \<Rightarrow> int) \<Rightarrow> nat \<Rightarrow> nat list" where
  "digits_of c m = map (\<lambda>n. nat (c n)) (rev [0..<m])"

definition lehmer_trial :: "int \<Rightarrow> (nat \<Rightarrow> int) \<Rightarrow> int Trial" where
  "lehmer_trial i c =
     \<lparr>trial_id = i, parameters = map (\<lambda>n. (str n, c n)) [0..<N],
      final_measurement = None, infeasibility_reason = None\<rparr>"

section \<open>Search spaces: infeasibility\<close>

text \<open>
  Modelled from the spec: \<^verbatim>\<open>trial.complete(measurement)\<close> records the measurement as the
  trial's evaluation result.
\<close>

definition complete :: "'v Trial \<Rightarrow> Measurement \<Rightarrow> 'v Trial" where
  "complete trial measurement = trial\<lparr>final_measurement := Some measurement\<rparr>"

text \<open>
  \<^verbatim>\<open>evaluate(trial)\<close> reads \<^verbatim>\<open>x\<close> and \<^verbatim>\<open>y\<close> from \<^verbatim>\<open>suggestion.parameters\<close>. The name
  \<^verbatim>\<open>suggestion\<close> is neither a parameter nor a local of the function, so Python looks it up
  among the globals: the first argument below is that binding, None when the name is
  unbound (as in the notebook, where no cell assigns it), which raises NameError. A
  missing key raises KeyError. The parameters are floats, written as reals.
\<close>

definition evaluate :: "real Trial option \<Rightarrow> real Trial \<Rightarrow> error + real Trial" where
  "evaluate suggestion trial =
     (case suggestion of
        None \<Rightarrow> Inl (NameError ''suggestion'')
      | Some s \<Rightarrow>
          (case map_of (Trial.parameters s) ''x'' of
             None \<Rightarrow> Inl (KeyError ''x'')
           | Some x \<Rightarrow>
               (case map_of (Trial.parameters s) ''y'' of
                  None \<Rightarrow> Inl (KeyError ''y'')
                | Some y \<Rightarrow>
                    if x\<^sup>2 + y\<^sup>2 \<le> 1
                    then Inr (complete trial \<lparr>metrics = [(''sum'', x + y)]\<rparr>)
                    else Inr (trial\<lparr>infeasibility_reason := Some ''Outside of range.''\<rparr>))))"

section \<open>Scenario inputs\<close>

text \<open>
  The concrete studies of the scenarios: a trial with id \<open>i\<close> whose parameter \<open>x\<close> has
  value \<open>v\<close>; the search space with one INTEGER parameter \<open>x\<close> in \<open>[1, 10]\<close>; the one with
  one CATEGORICAL parameter \<open>x\<close> with feasible values \<^verbatim>\<open>str(n)\<close> for \<open>n\<close> from 1 to 10; the one with one
  CATEGORICAL parameter with feasible values \<open>a\<close>, \<open>b\<close>, \<open>c\<close>; a datastore client that
  answers from a fixed snapshot; a trial of the disk study.
\<close>

definition scenario_trial :: "int \<Rightarrow> 'v \<Rightarrow> 'v Trial" where
  "scenario_trial i v =
     \<lparr>trial_id = i, parameters = [(''x'', v)],
      final_measurement = Some \<lparr>metrics = []\<rparr>, infeasibility_reason = None\<rparr>"





definition categorical_x_trials :: "ParameterValue Trial list" where
  "categorical_x_trials =
     [scenario_trial 1 (StrValue ''1''), scenario_trial 2 (StrValue ''2''),
      scenario_trial 3 (StrValue ''3'')]"

definition abc_config :: StudyConfig where
  "abc_config =
     \<lparr>search_space = SearchSpace
        [ParameterConfig ''categorical'' CATEGORICAL None
           [StrValue ''a'', StrValue ''b'', StrValue ''c''] None None []]\<rparr>"

definition snapshot_supporter :: "'v Trial list \<Rightarrow> 'v Trial list \<Rightarrow> 'v PolicySupporter" where
  "snapshot_supporter done others =
     \<lparr>GetTrials = (\<lambda>status_matches. if status_matches = COMPLETED then Inr done else Inr others)\<rparr>"

definition conditional_space :: SearchSpace where
  "conditional_space =
     SearchSpace
       [ParameterConfig ''optimizer'' CATEGORICAL None [StrValue ''sgd'', StrValue ''adam''] None None
          [([StrValue ''sgd''],
            ParameterConfig ''sgd_learning_rate'' DOUBLE (Some (1 / 10000, 1)) [] (Some LOG) None []),
           ([StrValue ''adam''],
            ParameterConfig ''adam_learning_rate'' DOUBLE (Some (1 / 10000, 1)) [] (Some LOG) None []),
           ([StrValue ''adam''],
            ParameterConfig ''adam_beta1'' DOUBLE (Some (0, 1)) [] (Some REVERSE_LOG) None []),
           ([StrValue ''adam''],
            ParameterConfig ''adam_beta2'' DOUBLE (Some (0, 1)) [] (Some REVERSE_LOG) None [])]]"

definition full_assignment :: "string \<Rightarrow> ParameterValue ParameterDict" where
  "full_assignment optimizer =
     [(''optimizer'', StrValue optimizer), (''sgd_learning_rate'', FloatValue (1 / 2)),
      (''adam_learning_rate'', FloatValue (1 / 4)), (''adam_beta1'', FloatValue (1 / 2)),
      (''adam_beta2'', FloatValue (1 / 2))]"

definition disk_trial :: "real \<Rightarrow> real \<Rightarrow> real Trial" where
  "disk_trial x y =
     \<lparr>trial_id = 1, parameters = [(''x'', x), (''y'', y)],
      final_measurement = None, infeasibility_reason = None\<rparr>"

section \<open>The cycling algorithm\<close>






section \<open>The stateless policy\<close>

lemma get_next_index_cong:
  "GetTrials s1 COMPLETED = GetTrials s2 COMPLETED \<Longrightarrow> get_next_index s1 = get_next_index s2"
  by (simp add: get_next_index_def)

lemma MyPolicy_suggest_loop_cong:
  "get_next_index (self_policy_supporter p1) = get_next_index (self_policy_supporter p2) \<Longrightarrow>
   MyPolicy_suggest_loop n p1 request acc = MyPolicy_suggest_loop n p2 request acc"
  by (induction n arbitrary: acc) (simp_all split: sum.splits)

text \<open>
  C1. Two policies constructed independently around datastore clients that return the
  same COMPLETED trials answer every request with the same result: the same sequence of
  suggestions (a fortiori the same set of values), or the same exception. The policy
  object holds nothing but its client, and \<^verbatim>\<open>suggest\<close> does not change it, so the result
  is a function of the study configuration, the fetched completed trials and the count.
\<close>

theorem MyPolicy_suggest_deterministic:
  assumes "GetTrials supporter1 COMPLETED = GetTrials supporter2 COMPLETED"
  shows "MyPolicy_suggest (MyPolicy_init supporter1) request =
         MyPolicy_suggest (MyPolicy_init supporter2) request"
  using MyPolicy_suggest_loop_cong [of "MyPolicy_init supporter1" "MyPolicy_init supporter2"]
    get_next_index_cong [OF assms]
  by (simp add: MyPolicy_suggest_def MyPolicy_init_def)

theorem MyPolicy_suggest_deterministic_witness:
  "GetTrials (snapshot_supporter categorical_x_trials []) COMPLETED =
     GetTrials (snapshot_supporter categorical_x_trials [scenario_trial 4 (StrValue ''4'')]) COMPLETED \<and>
   MyPolicy_suggest (MyPolicy_init (snapshot_supporter categorical_x_trials []))
       \<lparr>count = 2, study_config = abc_config\<rparr> =
     MyPolicy_suggest
       (MyPolicy_init (snapshot_supporter categorical_x_trials [scenario_trial 4 (StrValue ''4'')]))
       \<lparr>count = 2, study_config = abc_config\<rparr>"
  using MyPolicy_suggest_deterministic
    [of "snapshot_supporter categorical_x_trials []"
        "snapshot_supporter categorical_x_trials [scenario_trial 4 (StrValue ''4'')]"
        "\<lparr>count = 2, study_config = abc_config\<rparr>"]
  by (simp add: snapshot_supporter_def)

section \<open>The designer\<close>





lemma update_empty: "MyDesigner_update self \<lparr>completed = []\<rparr> = self"
  by (simp add: MyDesigner_update_def)

lemma update_empty_funpow:
  "((\<lambda>s. MyDesigner_update s \<lparr>completed = []\<rparr>) ^^ k) self = self"
  by (induction k) (simp_all add: update_empty)






text \<open>
  C7. Whatever the designer's state (its configuration and the completed trials it has
  been updated with), \<^verbatim>\<open>suggest\<close> with \<^verbatim>\<open>count\<close> absent returns the empty sequence.
\<close>

theorem MyDesigner_suggest_None: "MyDesigner_suggest self None = Inr []"
  by (simp add: MyDesigner_suggest_def)

text \<open>
  C8. \<^verbatim>\<open>update\<close> returns a state for every batch, so it cannot fail; with the empty batch,
  applied any number \<open>k\<close> of times, it returns the state it was given, and a later
  \<^verbatim>\<open>suggest\<close> gives what it would have given without those calls.
\<close>

theorem MyDesigner_update_empty_idempotent:
  "((\<lambda>s. MyDesigner_update s \<lparr>completed = []\<rparr>) ^^ k) self = self \<and>
   MyDesigner_suggest (((\<lambda>s. MyDesigner_update s \<lparr>completed = []\<rparr>) ^^ k) self) count_opt =
     MyDesigner_suggest self count_opt"
  by (simp add: update_empty_funpow)

text \<open>
  C9. A designer constructed from any study configuration and updated only with empty
  batches (any number \<open>k\<close> of them) has no completed trial, and \<^verbatim>\<open>suggest(n)\<close> raises
  the ValueError of \<^verbatim>\<open>max\<close> on an empty list, for every integer \<open>n\<close> and so for every
  \<open>n \<ge> 1\<close>.
\<close>

theorem MyDesigner_suggest_fresh_raises:
  "MyDesigner_suggest
     (((\<lambda>s. MyDesigner_update s \<lparr>completed = []\<rparr>) ^^ k) (MyDesigner_init config)) (Some n)
   = Inl (ValueError ''max() arg is an empty sequence'')"
  by (simp add: update_empty_funpow MyDesigner_suggest_def MyDesigner_init_def)

section \<open>The conditional search space\<close>

lemma conditional_problem_built:
  "conditional_problem = Inr \<lparr>search_space = conditional_space\<rparr>"
  by (simp add: conditional_problem_def conditional_space_def Let_def and_then_def select_root_def
      select_def add_categorical_param_def add_float_param_def with_children_def)

lemma flatten_sgd:
  "map_of assignment ''optimizer'' = Some (StrValue ''sgd'') \<Longrightarrow>
   nv \<in> set (flatten conditional_space assignment) \<Longrightarrow> \<not> startswith (fst nv) ''adam_''"
  by (auto simp: flatten_def conditional_space_def startswith_def split: option.splits)

lemma flatten_adam:
  "map_of assignment ''optimizer'' = Some (StrValue ''adam'') \<Longrightarrow>
   nv \<in> set (flatten conditional_space assignment) \<Longrightarrow> \<not> startswith (fst nv) ''sgd_''"
  by (auto simp: flatten_def conditional_space_def startswith_def split: option.splits)

text \<open>
  C4. The notebook's cell builds the conditional search space without error, and
  flattening any assignment against it gives: with \<open>optimizer = sgd\<close>, no parameter whose
  name starts with \<open>adam_\<close>; with \<open>optimizer = adam\<close>, none whose name starts with
  \<open>sgd_\<close>. The children whose guard the parent's value does not match do not appear.
\<close>

theorem conditional_flattening:
  "\<exists>problem. conditional_problem = Inr problem \<and>
     (\<forall>assignment. map_of assignment ''optimizer'' = Some (StrValue ''sgd'') \<longrightarrow>
        (\<forall>nv \<in> set (flatten (search_space problem) assignment).
           \<not> startswith (fst nv) ''adam_'')) \<and>
     (\<forall>assignment. map_of assignment ''optimizer'' = Some (StrValue ''adam'') \<longrightarrow>
        (\<forall>nv \<in> set (flatten (search_space problem) assignment).
           \<not> startswith (fst nv) ''sgd_''))"
  using flatten_sgd flatten_adam by (simp add: conditional_problem_built)

theorem conditional_flattening_witness:
  "\<exists>problem. conditional_problem = Inr problem \<and>
     map_of (full_assignment ''sgd'') ''optimizer'' = Some (StrValue ''sgd'') \<and>
     flatten (search_space problem) (full_assignment ''sgd'') =
       [(''optimizer'', StrValue ''sgd''), (''sgd_learning_rate'', FloatValue (1 / 2))] \<and>
     list_all (\<lambda>nv. \<not> startswith (fst nv) ''adam_'')
       (flatten (search_space problem) (full_assignment ''sgd'')) \<and>
     map_of (full_assignment ''adam'') ''optimizer'' = Some (StrValue ''adam'') \<and>
     flatten (search_space problem) (full_assignment ''adam'') =
       [(''optimizer'', StrValue ''adam''), (''adam_learning_rate'', FloatValue (1 / 4)),
        (''adam_beta1'', FloatValue (1 / 2)), (''adam_beta2'', FloatValue (1 / 2))] \<and>
     list_all (\<lambda>nv. \<not> startswith (fst nv) ''sgd_'')
       (flatten (search_space problem) (full_assignment ''adam''))"
proof -
  from conditional_flattening obtain problem where
    built: "conditional_problem = Inr problem" and
    sgd: "\<forall>assignment. map_of assignment ''optimizer'' = Some (StrValue ''sgd'') \<longrightarrow>
            (\<forall>nv \<in> set (flatten (search_space problem) assignment).
               \<not> startswith (fst nv) ''adam_'')" and
    adam: "\<forall>assignment. map_of assignment ''optimizer'' = Some (StrValue ''adam'') \<longrightarrow>
            (\<forall>nv \<in> set (flatten (search_space problem) assignment).
               \<not> startswith (fst nv) ''sgd_'')"
    by blast
  from built have space: "search_space problem = conditional_space"
    by (auto simp: conditional_problem_built)
  have s: "map_of (full_assignment ''sgd'') ''optimizer'' = Some (StrValue ''sgd'')"
    by (simp add: full_assignment_def)
  have a: "map_of (full_assignment ''adam'') ''optimizer'' = Some (StrValue ''adam'')"
    by (simp add: full_assignment_def)
  have fs: "flatten (search_space problem) (full_assignment ''sgd'') =
       [(''optimizer'', StrValue ''sgd''), (''sgd_learning_rate'', FloatValue (1 / 2))]"
    by (simp add: space flatten_def conditional_space_def full_assignment_def)
  have fa: "flatten (search_space problem) (full_assignment ''adam'') =
       [(''optimizer'', StrValue ''adam''), (''adam_learning_rate'', FloatValue (1 / 4)),
        (''adam_beta1'', FloatValue (1 / 2)), (''adam_beta2'', FloatValue (1 / 2))]"
    by (simp add: space flatten_def conditional_space_def full_assignment_def)
  from sgd s have "list_all (\<lambda>nv. \<not> startswith (fst nv) ''adam_'')
       (flatten (search_space problem) (full_assignment ''sgd''))"
    unfolding list_all_iff by blast
  moreover from adam a have "list_all (\<lambda>nv. \<not> startswith (fst nv) ''sgd_'')
       (flatten (search_space problem) (full_assignment ''adam''))"
    unfolding list_all_iff by blast
  ultimately show ?thesis using built s a fs fa by blast
qed

section \<open>The Lehmer-code reparameterization\<close>

lemma in_space_coefficient:
  assumes "in_permutation_space trial" and "n < N"
  shows "get_value (Trial.parameters trial) (str n) = Some (coefficient trial n)"
    and "0 \<le> coefficient trial n" and "coefficient trial n \<le> int n"
  using assms
  by (auto simp: in_permutation_space_def list_all_iff coefficient_def split: option.splits)

lemma compute_index_loop_sum:
  "\<forall>n \<in> set ns. get_value (Trial.parameters trial) (str n) = Some (c n) \<Longrightarrow>
   compute_index_loop ns trial index = Inr (index + sum_list (map (\<lambda>n. c n * fact n) ns))"
  by (induction ns arbitrary: index) (simp_all add: algebra_simps)

lemma lehmer_sum_Suc: "lehmer_sum c (Suc m) = lehmer_sum c m + c m * fact m"
  by (simp add: lehmer_sum_def)

lemma lehmer_sum_bounds:
  "\<forall>n<m. 0 \<le> c n \<and> c n \<le> int n \<Longrightarrow> 0 \<le> lehmer_sum c m \<and> lehmer_sum c m < fact m"
proof (induction m)
  case 0
  show ?case by (simp add: lehmer_sum_def)
next
  case (Suc m)
  then have ih: "0 \<le> lehmer_sum c m" "lehmer_sum c m < fact m" by simp_all
  from Suc.prems have cm: "0 \<le> c m" "c m \<le> int m" by simp_all
  have step: "c m * fact m \<le> int m * fact m"
    using cm by (intro mult_right_mono) simp_all
  have low: "0 \<le> c m * fact m"
    using cm by simp
  have f: "(fact (Suc m) :: int) = fact m + int m * fact m"
    by (simp add: algebra_simps)
  have "lehmer_sum c (Suc m) < fact m + int m * fact m"
    unfolding lehmer_sum_Suc using ih step by linarith
  moreover have "0 \<le> lehmer_sum c (Suc m)"
    unfolding lehmer_sum_Suc using ih low by linarith
  ultimately show ?case
    unfolding f by blast
qed

lemma lehmer_digits_of: "\<forall>n<m. 0 \<le> c n \<and> c n \<le> int n \<Longrightarrow> lehmer_digits (digits_of c m)"
proof (induction m)
  case 0
  show ?case by (simp add: digits_of_def)
next
  case (Suc m)
  then have "lehmer_digits (digits_of c m)" by simp
  moreover from Suc.prems have "nat (c m) \<le> m" by (simp add: nat_le_iff)
  ultimately show ?case by (simp add: digits_of_def)
qed

lemma length_digits_of: "length (digits_of c m) = m"
  by (simp add: digits_of_def)

lemma lehmer_decode_permutation:
  "distinct all \<Longrightarrow> lehmer_digits ds \<Longrightarrow> length ds = length all \<Longrightarrow>
   distinct (lehmer_decode all ds) \<and> set (lehmer_decode all ds) = set all \<and>
   length (lehmer_decode all ds) = length all"
proof (induction ds arbitrary: all)
  case Nil
  then show ?case by simp
next
  case (Cons d ds)
  then have d: "d < length all" by simp
  then have mem: "all ! d \<in> set all" by simp
  let ?x = "all ! d"
  let ?rest = "remove1 ?x all"
  have len: "length ?rest = length ds" using Cons.prems mem by (simp add: length_remove1)
  have "distinct ?rest" using Cons.prems by simp
  moreover have "lehmer_digits ds" using Cons.prems by simp
  ultimately have ih: "distinct (lehmer_decode ?rest ds)"
    "set (lehmer_decode ?rest ds) = set ?rest"
    "length (lehmer_decode ?rest ds) = length ?rest"
    using Cons.IH [of ?rest] len by simp_all
  from Cons.prems(1) have sr: "set ?rest = set all - {?x}" by simp
  have eq: "lehmer_decode all (d # ds) = ?x # lehmer_decode ?rest ds" by simp
  have 1: "distinct (?x # lehmer_decode ?rest ds)"
    using ih(1) ih(2) sr by simp
  have 2: "set (?x # lehmer_decode ?rest ds) = set all"
    using ih(2) sr mem by (simp add: insert_absorb)
  have 3: "length (?x # lehmer_decode ?rest ds) = length all"
    using ih(3) len Cons.prems(3) by simp
  show ?case unfolding eq using 1 2 3 by blast
qed

lemma lehmer_decode_inj:
  "distinct all \<Longrightarrow> lehmer_digits ds \<Longrightarrow> lehmer_digits es \<Longrightarrow>
   length ds = length all \<Longrightarrow> length es = length all \<Longrightarrow>
   lehmer_decode all ds = lehmer_decode all es \<Longrightarrow> ds = es"
proof (induction ds arbitrary: es all)
  case Nil
  then show ?case by simp
next
  case (Cons d ds)
  then obtain e es' where es: "es = e # es'" by (cases es) auto
  from Cons.prems es have d: "d < length all" and e: "e < length all" by simp_all
  from Cons.prems es have hd: "all ! d = all ! e" by simp
  with Cons.prems(1) d e have de: "d = e" by (simp add: nth_eq_iff_index_eq)
  let ?rest = "remove1 (all ! d) all"
  have mem: "all ! d \<in> set all" using d by simp
  have "ds = es'"
  proof (rule Cons.IH [of ?rest])
    show "distinct ?rest" using Cons.prems(1) by simp
    show "lehmer_digits ds" using Cons.prems by simp
    show "lehmer_digits es'" using Cons.prems es by simp
    show "length ds = length ?rest" using Cons.prems mem by (simp add: length_remove1)
    show "length es' = length ?rest" using Cons.prems es mem by (simp add: length_remove1)
    show "lehmer_decode ?rest ds = lehmer_decode ?rest es'" using Cons.prems es de by simp
  qed
  with de es show ?case by simp
qed

lemma lehmer_decode_surj:
  "distinct all \<Longrightarrow> distinct p \<Longrightarrow> set p = set all \<Longrightarrow>
   \<exists>ds. lehmer_digits ds \<and> length ds = length all \<and> lehmer_decode all ds = p"
proof (induction p arbitrary: all)
  case Nil
  then show ?case by (intro exI [of _ "[]"]) simp
next
  case (Cons x p)
  then have "x \<in> set all" by auto
  then obtain d where d: "d < length all" "all ! d = x" by (auto simp: in_set_conv_nth)
  let ?rest = "remove1 x all"
  have "distinct ?rest" using Cons.prems by simp
  moreover have "distinct p" using Cons.prems by simp
  moreover have "set p = set ?rest" using Cons.prems by auto
  ultimately obtain ds where ds: "lehmer_digits ds" "length ds = length ?rest"
      "lehmer_decode ?rest ds = p"
    using Cons.IH [of ?rest] by blast
  have len: "length ?rest = length all - 1" using \<open>x \<in> set all\<close> by (simp add: length_remove1)
  show ?case
    using d ds len by (intro exI [of _ "d # ds"]) auto
qed

lemma compute_permutation_loop_decode:
  "m \<le> N \<Longrightarrow> length all = m \<Longrightarrow> \<forall>n<m. 0 \<le> c n \<and> c n \<le> int n \<Longrightarrow>
   compute_permutation_loop [N + 1 - m..<N + 1] all (lehmer_sum c m) out =
     Inr (out @ lehmer_decode all (digits_of c m))"
proof (induction m arbitrary: all out)
  case 0
  then show ?case by (simp add: digits_of_def)
next
  case (Suc m)
  from Suc.prems have m: "m < N" by simp
  have "[N - m..<N + 1] = (N - m) # [Suc (N - m)..<N + 1]"
    by (rule upt_conv_Cons) simp
  moreover from m have "Suc (N - m) = N + 1 - m" by simp
  ultimately have ks: "[N + 1 - Suc m..<N + 1] = (N - m) # [N + 1 - m..<N + 1]"
    by simp
  from m have nk: "N - (N - m) = m" by simp
  from Suc.prems have b: "0 \<le> lehmer_sum c m" "lehmer_sum c m < fact m"
    using lehmer_sum_bounds [of m c] by simp_all
  from Suc.prems have cm: "0 \<le> c m" "c m \<le> int m" by simp_all
  have dv: "lehmer_sum c (Suc m) div fact m = c m"
    using b by (simp add: lehmer_sum_Suc)
  have md: "lehmer_sum c (Suc m) mod fact m = lehmer_sum c m"
    using b by (simp add: lehmer_sum_Suc)
  have gi: "py_getitem all (c m) = Inr (all ! nat (c m))"
    using cm Suc.prems(2) by (simp add: py_getitem_def)
  have mem: "all ! nat (c m) \<in> set all"
    using cm Suc.prems(2) by (intro nth_mem) simp
  have len: "length (remove1 (all ! nat (c m)) all) = m"
    using mem Suc.prems(2) by (simp add: length_remove1)
  have ih: "compute_permutation_loop [N + 1 - m..<N + 1] (remove1 (all ! nat (c m)) all)
              (lehmer_sum c m) (out @ [all ! nat (c m)]) =
            Inr ((out @ [all ! nat (c m)]) @
                 lehmer_decode (remove1 (all ! nat (c m)) all) (digits_of c m))"
    using Suc.prems m len by (intro Suc.IH) simp_all
  have dg: "digits_of c (Suc m) = nat (c m) # digits_of c m"
    by (simp add: digits_of_def)
  have "compute_permutation_loop ((N - m) # [N + 1 - m..<N + 1]) all (lehmer_sum c (Suc m)) out =
        compute_permutation_loop [N + 1 - m..<N + 1] (remove1 (all ! nat (c m)) all)
              (lehmer_sum c m) (out @ [all ! nat (c m)])"
    by (simp only: compute_permutation_loop.simps Let_def nk dv md gi sum.case)
  then show ?case
    unfolding ks ih dg by simp
qed

lemma str_digit: "n < 10 \<Longrightarrow> str n = [digit n]"
  by (simp add: str.simps)

lemma digit_inj: "a < 10 \<Longrightarrow> b < 10 \<Longrightarrow> digit a = digit b \<Longrightarrow> a = b"
proof -
  assume a: "a < 10" and b: "b < 10" and eq: "digit a = digit b"
  have d: "distinct ''0123456789''" by simp
  have l: "length ''0123456789'' = 10" by simp
  from eq have "''0123456789'' ! a = ''0123456789'' ! b" by (simp add: digit_def)
  with d a b l show "a = b" by (simp only: nth_eq_iff_index_eq)
qed

lemma str_inj: "a < N \<Longrightarrow> b < N \<Longrightarrow> str a = str b \<Longrightarrow> a = b"
  using digit_inj [of a b] by (simp add: N_def str_digit)

lemma map_of_map_key:
  "inj_on g (set xs) \<Longrightarrow> x \<in> set xs \<Longrightarrow> map_of (map (\<lambda>n. (g n, f n)) xs) (g x) = Some (f x)"
  by (induction xs) (auto simp: inj_on_def)

lemma get_value_lehmer_trial:
  "n < N \<Longrightarrow> get_value (Trial.parameters (lehmer_trial i c)) (str n) = Some (c n)"
proof -
  assume n: "n < N"
  have "inj_on str (set [0..<N])"
    by (auto simp: inj_on_def intro: str_inj)
  with n show ?thesis
    using map_of_map_key [of str "[0..<N]" n c]
    by (simp add: get_value_def lehmer_trial_def)
qed

lemma coefficient_lehmer_trial: "n < N \<Longrightarrow> coefficient (lehmer_trial i c) n = c n"
  by (simp add: coefficient_def get_value_lehmer_trial)

lemma lehmer_trial_in_space:
  "\<forall>n<N. 0 \<le> c n \<and> c n \<le> int n \<Longrightarrow> in_permutation_space (lehmer_trial i c)"
  by (simp add: in_permutation_space_def list_all_iff get_value_lehmer_trial)

lemma digits_of_lehmer_trial: "digits_of (coefficient (lehmer_trial i c)) N = digits_of c N"
  by (simp add: digits_of_def coefficient_lehmer_trial)

lemma lehmer_sum_lehmer_trial: "lehmer_sum (coefficient (lehmer_trial i c)) N = lehmer_sum c N"
proof -
  have "map (\<lambda>n. coefficient (lehmer_trial i c) n * fact n) [0..<N] = map (\<lambda>n. c n * fact n) [0..<N]"
    by (simp add: coefficient_lehmer_trial)
  then show ?thesis by (simp only: lehmer_sum_def)
qed

lemma lehmer_digits_nth: "lehmer_digits ds \<Longrightarrow> i < length ds \<Longrightarrow> ds ! i + i < length ds"
proof (induction ds arbitrary: i)
  case Nil
  then show ?case by simp
next
  case (Cons d ds)
  show ?case
  proof (cases i)
    case 0
    with Cons.prems show ?thesis by simp
  next
    case (Suc j)
    with Cons.prems have "ds ! j + j < length ds" by (intro Cons.IH) simp_all
    with Suc show ?thesis by simp
  qed
qed

lemma compute_index_in_space:
  assumes "in_permutation_space trial"
  shows "compute_index trial = Inr (lehmer_sum (coefficient trial) N)"
  using compute_index_loop_sum [of "[0..<N]" trial "coefficient trial" 0]
    in_space_coefficient(1) [OF assms]
  by (simp add: compute_index_def lehmer_sum_def)

lemma coefficient_bounds:
  "in_permutation_space trial \<Longrightarrow>
   \<forall>n<N. 0 \<le> coefficient trial n \<and> coefficient trial n \<le> int n"
  by (simp add: in_space_coefficient)

lemma phi_in_space:
  assumes "in_permutation_space trial"
  shows "phi trial = Inr (lehmer_decode (py_range (int N)) (digits_of (coefficient trial) N))"
  using compute_permutation_loop_decode
    [of N "py_range (int N)" "coefficient trial" "[]"] coefficient_bounds [OF assms]
  by (simp add: phi_def compute_index_in_space [OF assms] compute_permutation_def py_range_def)

lemma distinct_py_range: "distinct (py_range n)"
  by (simp add: py_range_def distinct_map)

lemma set_py_range_N: "set (py_range (int N)) = {0..9}"
proof -
  have "set (py_range (int N)) = int ` {0..<10}" by (simp add: py_range_def N_def)
  also have "\<dots> = {0..<10}" by (simp add: image_int_atLeastLessThan)
  also have "\<dots> = {0..9::int}" by auto
  finally show ?thesis .
qed

lemma length_py_range_N: "length (py_range (int N)) = N"
  by (simp add: py_range_def)

lemma phi_permutation:
  assumes "in_permutation_space trial"
  shows "\<exists>p. phi trial = Inr p \<and> length p = 10 \<and> distinct p \<and> set p = {0..9}"
proof -
  let ?ds = "digits_of (coefficient trial) N"
  have "distinct (lehmer_decode (py_range (int N)) ?ds) \<and>
        set (lehmer_decode (py_range (int N)) ?ds) = set (py_range (int N)) \<and>
        length (lehmer_decode (py_range (int N)) ?ds) = length (py_range (int N))"
    using lehmer_digits_of [OF coefficient_bounds [OF assms]]
    by (intro lehmer_decode_permutation)
       (simp_all add: distinct_py_range length_digits_of length_py_range_N)
  then show ?thesis
    by (simp add: phi_in_space [OF assms] set_py_range_N length_py_range_N) (simp add: N_def)
qed

lemma phi_injective:
  assumes t1: "in_permutation_space trial1" and t2: "in_permutation_space trial2"
      and eq: "phi trial1 = phi trial2" and n: "n < N"
  shows "get_value (Trial.parameters trial1) (str n) = get_value (Trial.parameters trial2) (str n)"
proof -
  let ?d1 = "digits_of (coefficient trial1) N" and ?d2 = "digits_of (coefficient trial2) N"
  from eq have "lehmer_decode (py_range (int N)) ?d1 = lehmer_decode (py_range (int N)) ?d2"
    by (simp add: phi_in_space [OF t1] phi_in_space [OF t2])
  then have "?d1 = ?d2"
    using lehmer_digits_of [OF coefficient_bounds [OF t1]]
      lehmer_digits_of [OF coefficient_bounds [OF t2]]
    by (intro lehmer_decode_inj [of "py_range (int N)"])
       (simp_all add: distinct_py_range length_digits_of length_py_range_N)
  then have "\<forall>k \<in> set (rev [0..<N]). nat (coefficient trial1 k) = nat (coefficient trial2 k)"
    unfolding digits_of_def by (simp only: map_eq_conv)
  with n have "nat (coefficient trial1 n) = nat (coefficient trial2 n)" by simp
  moreover have "0 \<le> coefficient trial1 n" "0 \<le> coefficient trial2 n"
    using in_space_coefficient(2) t1 t2 n by simp_all
  ultimately have "coefficient trial1 n = coefficient trial2 n" by simp
  then show ?thesis
    by (simp add: in_space_coefficient(1) [OF t1 n] in_space_coefficient(1) [OF t2 n])
qed

lemma digits_of_rev_nth:
  assumes "length ds = N"
  shows "digits_of (\<lambda>n. int (rev ds ! n)) N = ds"
proof -
  have "map (\<lambda>n. nat (int (rev ds ! n))) [0..<N] = map (nth (rev ds)) [0..<N]"
    by simp
  also have "\<dots> = rev ds" using assms map_nth [of "rev ds"] by simp
  finally have "rev (map (\<lambda>n. nat (int (rev ds ! n))) [0..<N]) = ds"
    by simp
  then show ?thesis by (simp only: digits_of_def rev_map)
qed

lemma phi_surjective:
  assumes "length q = 10" and "distinct q" and "set q = {0..9}"
  shows "\<exists>trial. in_permutation_space trial \<and> phi trial = Inr q"
proof -
  from assms obtain ds where ds: "lehmer_digits ds" "length ds = length (py_range (int N))"
      "lehmer_decode (py_range (int N)) ds = q"
    using lehmer_decode_surj [of "py_range (int N)" q]
    by (auto simp: distinct_py_range set_py_range_N)
  then have len: "length ds = N" by (simp add: length_py_range_N)
  let ?trial = "lehmer_trial 1 (\<lambda>n. int (rev ds ! n))"
  have "rev ds ! n \<le> n" if "n < N" for n
  proof -
    from that len have "rev ds ! n = ds ! (N - Suc n)" by (simp add: rev_nth)
    moreover from that len ds(1) have "ds ! (N - Suc n) + (N - Suc n) < N"
      using lehmer_digits_nth [of ds "N - Suc n"] by simp
    ultimately show ?thesis using that by simp
  qed
  then have space: "in_permutation_space ?trial"
    by (intro lehmer_trial_in_space) simp
  then have "phi ?trial = Inr q"
    by (simp add: phi_in_space digits_of_lehmer_trial digits_of_rev_nth [OF len] ds(3))
  with space show ?thesis by blast
qed

text \<open>
  C10. For every trial of the permutation search space (each parameter \<^verbatim>\<open>str(n)\<close>,
  \<open>n < 10\<close>, has an integer value in \<open>[0, n]\<close>): \<^verbatim>\<open>compute_index\<close> returns an integer in
  \<open>[0, 10! - 1]\<close>, and \<^verbatim>\<open>phi\<close> returns a list of length 10 without repetition whose
  elements are exactly \<open>0, ..., 9\<close>. The mapping is a bijection: two trials of the space
  with the same permutation have the same ten parameter values, and every permutation of
  \<open>0, ..., 9\<close> is \<^verbatim>\<open>phi\<close> of some trial of the space.
\<close>

theorem lehmer_reparameterization:
  "(in_permutation_space trial \<longrightarrow>
      (\<exists>index. compute_index trial = Inr index \<and> 0 \<le> index \<and> index \<le> fact 10 - 1) \<and>
      (\<exists>p. phi trial = Inr p \<and> length p = 10 \<and> distinct p \<and> set p = {0..9})) \<and>
   (in_permutation_space trial1 \<and> in_permutation_space trial2 \<and> phi trial1 = phi trial2 \<longrightarrow>
      (\<forall>n<10. get_value (Trial.parameters trial1) (str n) =
               get_value (Trial.parameters trial2) (str n))) \<and>
   (length q = 10 \<and> distinct q \<and> set q = {0..9} \<longrightarrow>
      (\<exists>trial. in_permutation_space trial \<and> phi trial = Inr q))"
proof (intro conjI impI)
  assume t: "in_permutation_space trial"
  have "0 \<le> lehmer_sum (coefficient trial) N \<and> lehmer_sum (coefficient trial) N < fact N"
    using coefficient_bounds [OF t] by (rule lehmer_sum_bounds)
  then show "\<exists>index. compute_index trial = Inr index \<and> 0 \<le> index \<and> index \<le> fact 10 - 1"
    by (simp add: compute_index_in_space [OF t] N_def)
  show "\<exists>p. phi trial = Inr p \<and> length p = 10 \<and> distinct p \<and> set p = {0..9}"
    using t by (rule phi_permutation)
next
  assume "in_permutation_space trial1 \<and> in_permutation_space trial2 \<and> phi trial1 = phi trial2"
  then show "\<forall>n<10. get_value (Trial.parameters trial1) (str n) =
                     get_value (Trial.parameters trial2) (str n)"
    using phi_injective [of trial1 trial2] by (simp add: N_def)
next
  assume "length q = 10 \<and> distinct q \<and> set q = {0..9}"
  then show "\<exists>trial. in_permutation_space trial \<and> phi trial = Inr q"
    using phi_surjective [of q] by simp
qed

theorem lehmer_reparameterization_witness:
  "in_permutation_space (lehmer_trial 1 int) \<and>
   compute_index (lehmer_trial 1 int) = Inr 3628799 \<and>
   phi (lehmer_trial 1 int) = Inr (rev (py_range 10)) \<and>
   (\<exists>index. compute_index (lehmer_trial 1 int) = Inr index \<and> 0 \<le> index \<and> index \<le> fact 10 - 1) \<and>
   (\<exists>p. phi (lehmer_trial 1 int) = Inr p \<and> length p = 10 \<and> distinct p \<and> set p = {0..9}) \<and>
   in_permutation_space (lehmer_trial 2 int) \<and>
   phi (lehmer_trial 1 int) = phi (lehmer_trial 2 int) \<and>
   get_value (Trial.parameters (lehmer_trial 1 int)) (str 7) =
     get_value (Trial.parameters (lehmer_trial 2 int)) (str 7) \<and>
   length (py_range 10) = 10 \<and> distinct (py_range 10) \<and> set (py_range 10) = {0..9} \<and>
   (\<exists>trial. in_permutation_space trial \<and> phi trial = Inr (py_range 10))"
proof -
  have s1: "in_permutation_space (lehmer_trial 1 int)"
    and s2: "in_permutation_space (lehmer_trial 2 int)"
    by (simp_all add: lehmer_trial_in_space)
  have "lehmer_sum int N = 3628799"
    by (simp add: lehmer_sum_def N_def upt_conv_Cons fact_numeral)
  then have index: "compute_index (lehmer_trial 1 int) = Inr 3628799"
    by (simp add: compute_index_in_space [OF s1] lehmer_sum_lehmer_trial)
  have "lehmer_decode (py_range (int N)) (digits_of int N) = rev (py_range 10)"
    by (simp add: digits_of_def py_range_def N_def upt_conv_Cons)
  then have p1: "phi (lehmer_trial 1 int) = Inr (rev (py_range 10))"
    by (simp add: phi_in_space [OF s1] digits_of_lehmer_trial)
  have eq: "phi (lehmer_trial 1 int) = phi (lehmer_trial 2 int)"
    by (simp add: phi_in_space [OF s1] phi_in_space [OF s2] digits_of_lehmer_trial)
  have q: "length (py_range 10) = 10" "distinct (py_range 10)" "set (py_range 10) = {0..9}"
    using set_py_range_N by (simp_all add: distinct_py_range N_def) (simp add: py_range_def)
  from lehmer_reparameterization
    [of "lehmer_trial 1 int" "lehmer_trial 1 int" "lehmer_trial 2 int" "py_range 10"]
  show ?thesis
    using s1 s2 index p1 eq q by simp
qed

section \<open>Infeasibility\<close>

text \<open>
  C3. The code does not do what the claim says. In the notebook's namespace, where the
  name \<^verbatim>\<open>suggestion\<close> is unbound, evaluating the trial \<open>(x = 2, y = 2)\<close> raises NameError.
  When some other cell has bound \<^verbatim>\<open>suggestion\<close>, the branch is chosen by that trial's
  parameters and not by the argument's: with \<^verbatim>\<open>suggestion\<close> at \<open>(0, 0)\<close>, the trial
  \<open>(2, 2)\<close> is completed with the measurement \<open>sum = 0\<close> and gets no infeasibility reason.
\<close>

theorem evaluate_reads_global_suggestion:
  "evaluate None (disk_trial 2 2) = Inl (NameError ''suggestion'') \<and>
   evaluate (Some (disk_trial 0 0)) (disk_trial 2 2) =
     Inr ((disk_trial 2 2)\<lparr>final_measurement := Some \<lparr>metrics = [(''sum'', 0)]\<rparr>\<rparr>)"
  by (simp add: evaluate_def disk_trial_def complete_def)

end
